theory Spec2Isabelle
  imports Complex_Main "HOL-Library.Word"
begin

section \<open>rmf\_robot\_sim\_common: utils.hpp\<close>

text \<open>
  The header \<^verbatim>\<open>rmf_robot_sim_common/utils.hpp\<close> defines the dual-backend entity tag
  \<^verbatim>\<open>SimEntity\<close>, the configuration record \<^verbatim>\<open>MotionParams\<close>, the template
  \<^verbatim>\<open>make_response\<close> and the Eigen/Ignition conversion templates. It only declares
  \<^verbatim>\<open>compute_desired_rate_of_change\<close>, \<^verbatim>\<open>simulation_now\<close> and
  \<^verbatim>\<open>sanitize_node_name\<close>; their bodies live in a translation unit that is not part
  of the sources at hand.

  Where arithmetic is done on it, a C++ \<^verbatim>\<open>double\<close> is idealised as a real number: rounding, infinities and
  NaN are outside the model.
\<close>

subsection \<open>SimEntity\<close>

text \<open>\<^verbatim>\<open>enum Simulator {Ignition, Gazebo};\<close>\<close>

datatype Simulator = Ignition | Gazebo

text \<open>
  The struct always carries all three fields, whichever constructor built it:
  \<^verbatim>\<open>Simulator sim_type; uint64_t entity; std::string name;\<close>
\<close>

record SimEntity =
  sim_type :: Simulator
  entity :: "64 word"
  name :: string

text \<open>
  \<^verbatim>\<open>SimEntity(uint64_t en) : sim_type(Ignition), entity(en) { name = ""; }\<close>
\<close>

definition SimEntity_from_entity :: "64 word \<Rightarrow> SimEntity" where
  "SimEntity_from_entity en = \<lparr>sim_type = Ignition, entity = en, name = ''''\<rparr>"

text \<open>
  \<^verbatim>\<open>SimEntity(std::string nm) : sim_type(Gazebo), name(nm) { entity = 0; }\<close>
\<close>

definition SimEntity_from_name :: "string \<Rightarrow> SimEntity" where
  "SimEntity_from_name nm = \<lparr>sim_type = Gazebo, entity = 0, name = nm\<rparr>"

text \<open>
  Both accessors are \<^verbatim>\<open>const\<close> member functions: they read the object and may write
  one line to \<^verbatim>\<open>std::cerr\<close>. The model returns the lines written to
  \<^verbatim>\<open>std::cerr\<close> together with the returned value; the object itself is not part of
  the result because the body contains no assignment to it. Neither accessor throws or
  returns early: the diagnostic branch falls through to the same \<^verbatim>\<open>return\<close>.
\<close>

definition get_name :: "SimEntity \<Rightarrow> string list \<times> string" where
  "get_name e =
     (if sim_type e \<noteq> Gazebo
      then [''SimEntity Ignition object does not hold a name.'']
      else [],
      name e)"

definition get_entity :: "SimEntity \<Rightarrow> string list \<times> 64 word" where
  "get_entity e =
     (if sim_type e \<noteq> Ignition
      then [''SimEntity Gazebo object does not hold a uint64_t entity.'']
      else [],
      entity e)"

subsection \<open>SimEntity as an object under construction\<close>

text \<open>
  The record above describes a finished object. To say that a constructor leaves no
  field uninitialised, that an accessor reads no indeterminate value and that it leaves
  the object as it found it, the object is modelled a second time, at the level of its
  storage: each field is either indeterminate (\<open>None\<close>) or holds a value, a constructor
  is the sequence of its initialisations, and an accessor returns the object after the
  call together with what it wrote to \<^verbatim>\<open>std::cerr\<close> and its value, or fails where the
  C++ would read an indeterminate value.
\<close>

datatype access_error = Indeterminate_read

record SimEntity_object =
  obj_sim_type :: "Simulator option"
  obj_entity :: "64 word option"
  obj_name :: "string option"

text \<open>The storage of a SimEntity before any constructor has run.\<close>

definition SimEntity_storage :: SimEntity_object where
  "SimEntity_storage = \<lparr>obj_sim_type = None, obj_entity = None, obj_name = None\<rparr>"

text \<open>
  \<^verbatim>\<open>SimEntity(uint64_t en) : sim_type(Ignition), entity(en)\<close>: the members are
  initialised in the order of their declaration; \<^verbatim>\<open>name\<close> is not in the initialiser
  list, so the default constructor of \<^verbatim>\<open>std::string\<close> makes it empty.
\<close>

definition SimEntity_entity_member_init :: "64 word \<Rightarrow> SimEntity_object" where
  "SimEntity_entity_member_init en =
     (let this = SimEntity_storage;
          this = this\<lparr>obj_sim_type := Some Ignition\<rparr>;
          this = this\<lparr>obj_entity := Some en\<rparr>;
          this = this\<lparr>obj_name := Some ''''\<rparr>
      in this)"

text \<open>The body of that constructor: \<^verbatim>\<open>{ name = ""; }\<close>\<close>

definition SimEntity_entity_constructor :: "64 word \<Rightarrow> SimEntity_object" where
  "SimEntity_entity_constructor en =
     (let this = SimEntity_entity_member_init en;
          this = this\<lparr>obj_name := Some ''''\<rparr>
      in this)"

text \<open>
  \<^verbatim>\<open>SimEntity(std::string nm) : sim_type(Gazebo), name(nm)\<close>: \<^verbatim>\<open>entity\<close> is not in
  the initialiser list and a \<^verbatim>\<open>uint64_t\<close> has no default constructor, so it stays
  indeterminate until the body runs.
\<close>

definition SimEntity_name_member_init :: "string \<Rightarrow> SimEntity_object" where
  "SimEntity_name_member_init nm =
     (let this = SimEntity_storage;
          this = this\<lparr>obj_sim_type := Some Gazebo\<rparr>;
          this = this\<lparr>obj_name := Some nm\<rparr>
      in this)"

text \<open>The body of that constructor: \<^verbatim>\<open>{ entity = 0; }\<close>\<close>

definition SimEntity_name_constructor :: "string \<Rightarrow> SimEntity_object" where
  "SimEntity_name_constructor nm =
     (let this = SimEntity_name_member_init nm;
          this = this\<lparr>obj_entity := Some 0\<rparr>
      in this)"

text \<open>
  \<^verbatim>\<open>get_name\<close> reads \<^verbatim>\<open>sim_type\<close> for its test and \<^verbatim>\<open>name\<close> for its result;
  \<^verbatim>\<open>get_entity\<close> reads \<^verbatim>\<open>sim_type\<close> and \<^verbatim>\<open>entity\<close>. Neither assigns to a field, so
  the object returned is the object received.
\<close>

definition get_name_object ::
  "SimEntity_object \<Rightarrow> access_error + (SimEntity_object \<times> string list \<times> string)" where
  "get_name_object this =
     (case obj_sim_type this of
        None \<Rightarrow> Inl Indeterminate_read
      | Some t \<Rightarrow>
          (case obj_name this of
             None \<Rightarrow> Inl Indeterminate_read
           | Some nm \<Rightarrow>
               Inr (this,
                    if t \<noteq> Gazebo
                    then [''SimEntity Ignition object does not hold a name.'']
                    else [],
                    nm)))"

definition get_entity_object ::
  "SimEntity_object \<Rightarrow> access_error + (SimEntity_object \<times> string list \<times> 64 word)" where
  "get_entity_object this =
     (case obj_sim_type this of
        None \<Rightarrow> Inl Indeterminate_read
      | Some t \<Rightarrow>
          (case obj_entity this of
             None \<Rightarrow> Inl Indeterminate_read
           | Some en \<Rightarrow>
               Inr (this,
                    if t \<noteq> Ignition
                    then [''SimEntity Gazebo object does not hold a uint64_t entity.'']
                    else [],
                    en)))"

definition fully_initialised :: "SimEntity_object \<Rightarrow> bool" where
  "fully_initialised this \<longleftrightarrow>
     obj_sim_type this \<noteq> None \<and> obj_entity this \<noteq> None \<and> obj_name this \<noteq> None"

text \<open>The finished object that a fully initialised storage holds.\<close>

definition abstract_object :: "SimEntity_object \<Rightarrow> SimEntity option" where
  "abstract_object this =
     (case (obj_sim_type this, obj_entity this, obj_name this) of
        (Some t, Some en, Some nm) \<Rightarrow> Some \<lparr>sim_type = t, entity = en, name = nm\<rparr>
      | _ \<Rightarrow> None)"

subsection \<open>MotionParams\<close>

text \<open>
  \<^verbatim>\<open>struct MotionParams { double v_max = 0.2; double a_max = 0.1;
  double a_nom = 0.08; double dx_min = 0.01; };\<close>
  The struct is an aggregate with default member initialisers. It has no constructor, no
  setter and no check of any kind: every combination of four doubles is a MotionParams.
\<close>

record MotionParams =
  v_max :: real
  a_max :: real
  a_nom :: real
  dx_min :: real

text \<open>The value of \<^verbatim>\<open>MotionParams p;\<close> (all default member initialisers).\<close>

definition MotionParams_default :: MotionParams where
  "MotionParams_default = \<lparr>v_max = 2 / 10, a_max = 1 / 10, a_nom = 8 / 100, dx_min = 1 / 100\<rparr>"

text \<open>
  The invariant is not in the code; it follows the words of the specification
  (section 3: \<open>v_max > 0\<close>, \<open>a_max > 0\<close>, \<open>a_nom > 0\<close>, \<open>dx_min \<ge> 0\<close>,
  \<open>a_nom \<le> a_max\<close>). Finiteness holds of every real number.
\<close>

definition MotionParams_invariant_spec :: "MotionParams \<Rightarrow> bool" where
  "MotionParams_invariant_spec p \<longleftrightarrow>
     0 < v_max p \<and> 0 < a_max p \<and> 0 < a_nom p \<and> 0 \<le> dx_min p \<and> a_nom p \<le> a_max p"

subsection \<open>make\_response\<close>

text \<open>
  \<^verbatim>\<open>ResultMsgT\<close> is a template parameter: any message type with the four fields
  assigned below. The extensible record stands for it; its \<open>more\<close> part holds whatever
  other fields the message type has. The time stamp type \<^verbatim>\<open>rclcpp::Time\<close> is a type
  parameter.
\<close>

record 'time ResultMsg =
  time :: 'time
  request_guid :: string
  source_guid :: string
  status :: "8 word"

text \<open>
  \<^verbatim>\<open>simulation_now\<close> is only declared in the header, so it is a parameter of the
  model, and so is the default-constructed message that \<^verbatim>\<open>std::make_shared<ResultMsgT>()\<close>
  allocates. The four assignments follow in the order of the source. The function returns
  the shared pointer to the fresh message; the model returns the message.
\<close>

definition make_response ::
  "(real \<Rightarrow> 'time) \<Rightarrow> ('time, 'more) ResultMsg_scheme \<Rightarrow>
   8 word \<Rightarrow> real \<Rightarrow> string \<Rightarrow> string \<Rightarrow> ('time, 'more) ResultMsg_scheme" where
  "make_response simulation_now response0 status_arg sim_time request_guid_arg guid =
     (let response = response0;
          response = response\<lparr>time := simulation_now sim_time\<rparr>;
          response = response\<lparr>request_guid := request_guid_arg\<rparr>;
          response = response\<lparr>source_guid := guid\<rparr>;
          response = response\<lparr>status := status_arg\<rparr>
      in response)"

subsection \<open>compute\_desired\_rate\_of\_change\<close>

text \<open>
  The header gives only the declaration
  \<^verbatim>\<open>double compute_desired_rate_of_change(double _s_target, double _v_actual,
  double _speed_target_now, double _speed_target_dest, const MotionParams& _motion_params,
  const double _dt);\<close>
  The definitions of this subsection follow the algorithm of section 4.1 of the
  specification, step by step.
\<close>

text \<open>
  Modelled from the spec: the body of \<^verbatim>\<open>compute_desired_rate_of_change\<close> is missing.
  "Move \<open>v\<close> toward \<open>target\<close> by at most \<open>step\<close>" (steps 2, 4 and 5): the target is reached
  when it is within \<open>step\<close>, otherwise the velocity changes by exactly \<open>step\<close> in the
  direction of the target, so the magnitude of the change never exceeds \<open>step\<close>.
\<close>

definition move_toward :: "real \<Rightarrow> real \<Rightarrow> real \<Rightarrow> real" where
  "move_toward v target step =
     (if \<bar>target - v\<bar> \<le> step then target
      else if v < target then v + step
      else v - step)"

text \<open>
  Modelled from the spec: the body of \<^verbatim>\<open>compute_desired_rate_of_change\<close> is missing.
  "The resulting magnitude is clipped to \<open>v_max\<close>" (step 5).
\<close>

definition clip_magnitude :: "real \<Rightarrow> real \<Rightarrow> real" where
  "clip_magnitude v bound = (if bound < v then bound else if v < - bound then - bound else v)"

text \<open>
  Modelled from the spec: the body of \<^verbatim>\<open>compute_desired_rate_of_change\<close> is missing.
  Step 3: \<open>d_brake = (v_actual\<^sup>2 - speed_target_dest\<^sup>2) / (2 a_max)\<close> when \<open>v_actual\<close> and
  \<open>dir\<close> agree in sign and \<open>|v_actual| > speed_target_dest\<close>; otherwise 0. "Agree in sign"
  is read as \<open>sign v_actual = dir\<close>. The quotient is meant for \<open>a_max > 0\<close>, which the
  invariant of MotionParams grants.
\<close>

definition braking_distance :: "real \<Rightarrow> real \<Rightarrow> real \<Rightarrow> real \<Rightarrow> real" where
  "braking_distance dir v_actual speed_target_dest a_max_arg =
     (if sgn v_actual = dir \<and> speed_target_dest < \<bar>v_actual\<bar>
      then (v_actual\<^sup>2 - speed_target_dest\<^sup>2) / (2 * a_max_arg)
      else 0)"

text \<open>
  Modelled from the spec: the body of \<^verbatim>\<open>compute_desired_rate_of_change\<close> is missing.
  Step 1 takes \<open>dir = sign s_target\<close> (0 at 0) and \<open>dist = |s_target|\<close>.
  Step 2 is the deadband \<open>dist < dx_min\<close>: the velocity moves toward
  \<open>dir \<sqdot> speed_target_dest\<close> by at most \<open>a_max \<sqdot> dt\<close>, except that at \<open>dist = 0\<close> a
  velocity already within the tolerance of the target (the residual speed
  \<open>|v_actual - dir \<sqdot> speed_target_dest|\<close> is at most the tolerance) snaps to it. The
  specification calls the tolerance "small" and gives no value, so it is the parameter
  \<open>tol\<close>, the first argument.
  Steps 3 and 4 choose between braking (toward \<open>dir \<sqdot> speed_target_dest\<close> at \<open>a_max\<close>) when
  \<open>dist \<le> d_brake\<close> and cruising (toward \<open>dir \<sqdot> speed_target_now\<close> at \<open>a_nom\<close>) otherwise.
  Step 5 limits the change first and clips the resulting magnitude to \<open>v_max\<close> last.
  The Result clause of the contract promises \<open>|v_new| \<le> v_max\<close> of every returned
  velocity, and section 9 makes that bound binding over any single formula, so the value
  of the deadband path is clipped to \<open>v_max\<close> like the values of the two regimes.
  Step 6 of the specification states a property of the result, not a further computation.
\<close>

definition compute_desired_rate_of_change ::
  "real \<Rightarrow> real \<Rightarrow> real \<Rightarrow> real \<Rightarrow> real \<Rightarrow> MotionParams \<Rightarrow> real \<Rightarrow> real" where
  "compute_desired_rate_of_change tol s_target v_actual speed_target_now speed_target_dest
      motion_params dt =
     (let dir = sgn s_target;
          dist = \<bar>s_target\<bar>
      in
        if dist < dx_min motion_params then
          clip_magnitude
            (if dist = 0 \<and> \<bar>v_actual - dir * speed_target_dest\<bar> \<le> tol
             then dir * speed_target_dest
             else move_toward v_actual (dir * speed_target_dest) (a_max motion_params * dt))
            (v_max motion_params)
        else if dist \<le> braking_distance dir v_actual speed_target_dest (a_max motion_params) then
          clip_magnitude
            (move_toward v_actual (dir * speed_target_dest) (a_max motion_params * dt))
            (v_max motion_params)
        else
          clip_magnitude
            (move_toward v_actual (dir * speed_target_now) (a_nom motion_params * dt))
            (v_max motion_params))"

subsection \<open>Conversions between Eigen and Ignition Math\<close>

text \<open>
  The conversion templates copy components one by one and do no arithmetic of their own,
  so the component type (a \<^verbatim>\<open>double\<close> in the code) is a type parameter here.
  \<^verbatim>\<open>Eigen::Vector3d\<close> is read by index, \<^verbatim>\<open>Eigen::Quaterniond\<close> by
  \<^verbatim>\<open>w() x() y() z()\<close>; the Ignition types are template parameters with accessors
  \<^verbatim>\<open>X() Y() Z() W()\<close>, and \<^verbatim>\<open>convert_vec\<close> reads the Ignition vector by index,
  taken here to address the same three components in the order X, Y, Z.
\<close>

record 'd Vector3d =
  coeff0 :: 'd
  coeff1 :: 'd
  coeff2 :: 'd

record 'd Quaterniond =
  quat_w :: 'd
  quat_x :: 'd
  quat_y :: 'd
  quat_z :: 'd

record 'd IgnVec3 =
  vec_X :: 'd
  vec_Y :: 'd
  vec_Z :: 'd

record 'd IgnQuat =
  rot_W :: 'd
  rot_X :: 'd
  rot_Y :: 'd
  rot_Z :: 'd

record 'd IgnPose =
  Pos :: "'d IgnVec3"
  Rot :: "'d IgnQuat"

text \<open>
  \<^verbatim>\<open>Eigen::Isometry3d\<close>, as far as the conversions touch it: \<^verbatim>\<open>translation()\<close> and
  \<^verbatim>\<open>linear()\<close>, a 3x3 matrix whose type is a parameter (the field is called
  \<open>linear_part\<close> because \<open>linear\<close> is a constant of the library).
\<close>

record ('d, 'm) Isometry3d =
  translation :: "'d Vector3d"
  linear_part :: 'm

text \<open>
  \<^verbatim>\<open>convert(const Eigen::Quaterniond& _q, IgnQuatT& quat)\<close> assigns all four
  components of its out-parameter; the model returns the value written.
\<close>

definition convert_quat_out :: "'d Quaterniond \<Rightarrow> 'd IgnQuat" where
  "convert_quat_out q = \<lparr>rot_W = quat_w q, rot_X = quat_x q, rot_Y = quat_y q, rot_Z = quat_z q\<rparr>"

text \<open>\<^verbatim>\<open>convert(const Eigen::Vector3d& _v, IgnVec3T& vec)\<close>, likewise.\<close>

definition convert_vec_out :: "'d Vector3d \<Rightarrow> 'd IgnVec3" where
  "convert_vec_out v = \<lparr>vec_X = coeff0 v, vec_Y = coeff1 v, vec_Z = coeff2 v\<rparr>"

definition convert_vec :: "'d IgnVec3 \<Rightarrow> 'd Vector3d" where
  "convert_vec v = \<lparr>coeff0 = vec_X v, coeff1 = vec_Y v, coeff2 = vec_Z v\<rparr>"

definition convert_quat :: "'d IgnQuat \<Rightarrow> 'd Quaterniond" where
  "convert_quat q = \<lparr>quat_w = rot_W q, quat_x = rot_X q, quat_y = rot_Y q, quat_z = rot_Z q\<rparr>"

text \<open>
  \<^verbatim>\<open>convert_to_pose\<close> and \<^verbatim>\<open>convert_pose\<close> go through Eigen's own conversions
  between a rotation matrix and a quaternion, \<^verbatim>\<open>Eigen::Quaterniond(_tf.linear())\<close> and
  \<^verbatim>\<open>Eigen::Matrix3d(quaternion)\<close>. Those are library code outside this repository and
  are parameters of the model.
\<close>

definition convert_to_pose :: "('m \<Rightarrow> 'd Quaterniond) \<Rightarrow> ('d, 'm) Isometry3d \<Rightarrow> 'd IgnPose" where
  "convert_to_pose quaternion_of_matrix tf =
     \<lparr>Pos = convert_vec_out (translation tf),
      Rot = convert_quat_out (quaternion_of_matrix (linear_part tf))\<rparr>"

definition convert_pose :: "('d Quaterniond \<Rightarrow> 'm) \<Rightarrow> 'd IgnPose \<Rightarrow> ('d, 'm) Isometry3d" where
  "convert_pose matrix_of_quaternion pose =
     \<lparr>translation = convert_vec (Pos pose),
      linear_part = matrix_of_quaternion (convert_quat (Rot pose))\<rparr>"

subsection \<open>Eigen's conversions between a quaternion and a rotation matrix\<close>

text \<open>
  Eigen is a library outside this repository. Its two conversions are given here over
  the reals as its documentation and \<^verbatim>\<open>Eigen/src/Geometry/Quaternion.h\<close> describe them:
  \<^verbatim>\<open>QuaternionBase::toRotationMatrix\<close>, and the assignment of a 3x3 matrix to a
  quaternion (Shoemake's method: from the trace when it is positive, otherwise from the
  largest diagonal coefficient). They serve as an instance of the parameters of
  \<^verbatim>\<open>convert_to_pose\<close> and \<^verbatim>\<open>convert_pose\<close>.
\<close>

record 'd Matrix3d =
  m00 :: 'd
  m01 :: 'd
  m02 :: 'd
  m10 :: 'd
  m11 :: 'd
  m12 :: 'd
  m20 :: 'd
  m21 :: 'd
  m22 :: 'd

definition toRotationMatrix :: "real Quaterniond \<Rightarrow> real Matrix3d" where
  "toRotationMatrix q =
     (let tx = 2 * quat_x q; ty = 2 * quat_y q; tz = 2 * quat_z q;
          twx = tx * quat_w q; twy = ty * quat_w q; twz = tz * quat_w q;
          txx = tx * quat_x q; txy = ty * quat_x q; txz = tz * quat_x q;
          tyy = ty * quat_y q; tyz = tz * quat_y q; tzz = tz * quat_z q
      in \<lparr>m00 = 1 - (tyy + tzz), m01 = txy - twz, m02 = txz + twy,
          m10 = txy + twz, m11 = 1 - (txx + tzz), m12 = tyz - twx,
          m20 = txz - twy, m21 = tyz + twx, m22 = 1 - (txx + tyy)\<rparr>)"

text \<open>
  In the second branch \<open>i\<close> is the index of the largest diagonal coefficient as Eigen
  finds it (\<^verbatim>\<open>i = 0; if (m(1,1) > m(0,0)) i = 1; if (m(2,2) > m(i,i)) i = 2;\<close>), and the
  three cases are Eigen's formulas for \<open>i\<close>, \<open>j = (i + 1) mod 3\<close>, \<open>k = (j + 1) mod 3\<close>
  written out.
\<close>

definition Quaterniond_from_matrix :: "real Matrix3d \<Rightarrow> real Quaterniond" where
  "Quaterniond_from_matrix m =
     (let t = m00 m + m11 m + m22 m in
      if 0 < t then
        (let t1 = sqrt (t + 1); t2 = (1 / 2) / t1
         in \<lparr>quat_w = (1 / 2) * t1,
             quat_x = (m21 m - m12 m) * t2,
             quat_y = (m02 m - m20 m) * t2,
             quat_z = (m10 m - m01 m) * t2\<rparr>)
      else
        (let i = (if m00 m < m11 m then 1 else 0 :: nat);
             i = (if (if i = 1 then m11 m else m00 m) < m22 m then 2 else i)
         in if i = 0 then
              (let t1 = sqrt (m00 m - m11 m - m22 m + 1); t2 = (1 / 2) / t1
               in \<lparr>quat_w = (m21 m - m12 m) * t2,
                   quat_x = (1 / 2) * t1,
                   quat_y = (m10 m + m01 m) * t2,
                   quat_z = (m20 m + m02 m) * t2\<rparr>)
            else if i = 1 then
              (let t1 = sqrt (m11 m - m22 m - m00 m + 1); t2 = (1 / 2) / t1
               in \<lparr>quat_w = (m02 m - m20 m) * t2,
                   quat_x = (m01 m + m10 m) * t2,
                   quat_y = (1 / 2) * t1,
                   quat_z = (m21 m + m12 m) * t2\<rparr>)
            else
              (let t1 = sqrt (m22 m - m00 m - m11 m + 1); t2 = (1 / 2) / t1
               in \<lparr>quat_w = (m10 m - m01 m) * t2,
                   quat_x = (m02 m + m20 m) * t2,
                   quat_y = (m12 m + m21 m) * t2,
                   quat_z = (1 / 2) * t1\<rparr>)))"

definition unit_quaternion :: "real Quaterniond \<Rightarrow> bool" where
  "unit_quaternion q \<longleftrightarrow>
     (quat_w q)\<^sup>2 + (quat_x q)\<^sup>2 + (quat_y q)\<^sup>2 + (quat_z q)\<^sup>2 = 1"

definition quat_scale :: "real \<Rightarrow> real Quaterniond \<Rightarrow> real Quaterniond" where
  "quat_scale c q =
     \<lparr>quat_w = c * quat_w q, quat_x = c * quat_x q, quat_y = c * quat_y q, quat_z = c * quat_z q\<rparr>"

subsection \<open>The accessors the specification asks for\<close>

text \<open>
  Section 4.2 and section 7 of the specification describe accessors \<open>as_name\<close> and
  \<open>as_handle\<close> that are valid on one variant only and yield an explicit failure (an
  empty optional) on the other. These two definitions follow the specification's words,
  not the code; they are what \<^verbatim>\<open>get_name\<close> and \<^verbatim>\<open>get_entity\<close> are compared with.
\<close>

definition as_name_spec :: "SimEntity \<Rightarrow> string option" where
  "as_name_spec e = (case sim_type e of Gazebo \<Rightarrow> Some (name e) | Ignition \<Rightarrow> None)"

definition as_handle_spec :: "SimEntity \<Rightarrow> 64 word option" where
  "as_handle_spec e = (case sim_type e of Ignition \<Rightarrow> Some (entity e) | Gazebo \<Rightarrow> None)"

section \<open>Properties of SimEntity\<close>

text \<open>
  C6. Matching-variant round trip: an entity built from a handle \<open>h\<close> returns \<open>h\<close>
  from \<^verbatim>\<open>get_entity\<close>, and an entity built from a string \<open>s\<close> returns \<open>s\<close> from
  \<^verbatim>\<open>get_name\<close>; in both cases nothing is written to \<^verbatim>\<open>std::cerr\<close>.
\<close>

theorem SimEntity_accessor_roundtrip:
  "get_entity (SimEntity_from_entity h) = ([], h) \<and>
   get_name (SimEntity_from_name s) = ([], s)"
  by (simp add: get_entity_def get_name_def SimEntity_from_entity_def SimEntity_from_name_def)

text \<open>
  C4, as stated, fails. On an entity built from the handle 7, \<^verbatim>\<open>get_name\<close> writes its
  diagnostic and then returns the empty string: an ordinary value of its return type, the
  very value it returns for an entity legitimately given the empty name, where the
  specified \<open>as_name\<close> yields the empty optional. Likewise \<^verbatim>\<open>get_entity\<close> on an entity
  built from the name \<open>lift\<close> returns 0, the value it returns for the legitimate handle 0.
\<close>

theorem wrong_variant_access_counterexample:
  "get_name (SimEntity_from_entity 7) =
     ([''SimEntity Ignition object does not hold a name.''], '''') \<and>
   snd (get_name (SimEntity_from_entity 7)) = snd (get_name (SimEntity_from_name '''')) \<and>
   as_name_spec (SimEntity_from_entity 7) = None \<and>
   get_entity (SimEntity_from_name ''lift'') =
     ([''SimEntity Gazebo object does not hold a uint64_t entity.''], 0) \<and>
   snd (get_entity (SimEntity_from_name ''lift'')) = snd (get_entity (SimEntity_from_entity 0)) \<and>
   as_handle_spec (SimEntity_from_name ''lift'') = None"
  by (simp add: get_entity_def get_name_def SimEntity_from_entity_def SimEntity_from_name_def
      as_name_spec_def as_handle_spec_def)

text \<open>
  C4, amended to what the code does: calling the accessor of the variant that was not
  constructed writes exactly one diagnostic line to \<^verbatim>\<open>std::cerr\<close> and returns the
  stored default payload (the empty string from \<^verbatim>\<open>get_name\<close>, 0 from
  \<^verbatim>\<open>get_entity\<close>); no error is raised and no empty result exists.
\<close>

theorem wrong_variant_access_logs_and_returns_default:
  "get_name (SimEntity_from_entity en) =
     ([''SimEntity Ignition object does not hold a name.''], '''') \<and>
   get_entity (SimEntity_from_name nm) =
     ([''SimEntity Gazebo object does not hold a uint64_t entity.''], 0)"
  by (simp add: get_entity_def get_name_def SimEntity_from_entity_def SimEntity_from_name_def)

text \<open>
  The member initialisers of the name constructor alone leave \<^verbatim>\<open>entity\<close>
  indeterminate: without the assignment in the body, \<^verbatim>\<open>get_entity\<close> would read an
  indeterminate value. So full initialisation is a property of the constructors, not of
  the model.
\<close>

lemma name_member_init_leaves_entity_indeterminate:
  "\<not> fully_initialised (SimEntity_name_member_init nm) \<and>
   get_entity_object (SimEntity_name_member_init nm) = Inl Indeterminate_read"
  by (simp add: fully_initialised_def SimEntity_name_member_init_def SimEntity_storage_def
      get_entity_object_def)

text \<open>
  The objects the constructors build hold the finished records used above, and on any
  storage that holds a finished record the accessors agree with the accessors on records.
\<close>

lemma constructors_abstract:
  "abstract_object (SimEntity_entity_constructor en) = Some (SimEntity_from_entity en) \<and>
   abstract_object (SimEntity_name_constructor nm) = Some (SimEntity_from_name nm)"
  by (simp add: abstract_object_def SimEntity_entity_constructor_def
      SimEntity_entity_member_init_def SimEntity_name_constructor_def
      SimEntity_name_member_init_def SimEntity_storage_def SimEntity_from_entity_def
      SimEntity_from_name_def)

lemma accessors_abstract:
  assumes "abstract_object this = Some e"
  shows "get_name_object this = Inr (this, get_name e) \<and>
         get_entity_object this = Inr (this, get_entity e)"
  using assms
  by (auto simp add: abstract_object_def get_name_object_def get_entity_object_def
      get_name_def get_entity_def split: option.splits)

text \<open>
  C10. Every constructor initialises every field, the payload it does not take
  included: after either constructor no field of the object is indeterminate. Hence
  both accessors succeed on every constructed object without reading an indeterminate
  value: \<^verbatim>\<open>get_name\<close> on a handle-constructed object returns the empty string,
  \<^verbatim>\<open>get_entity\<close> on a name-constructed object returns 0, the matching accessors return
  the payload, and in all four cases the object after the call is the object before it.
\<close>

theorem SimEntity_constructors_initialise_both_payloads:
  "fully_initialised (SimEntity_entity_constructor en) \<and>
   fully_initialised (SimEntity_name_constructor nm) \<and>
   get_name_object (SimEntity_entity_constructor en) =
     Inr (SimEntity_entity_constructor en,
          [''SimEntity Ignition object does not hold a name.''], '''') \<and>
   get_entity_object (SimEntity_entity_constructor en) =
     Inr (SimEntity_entity_constructor en, [], en) \<and>
   get_name_object (SimEntity_name_constructor nm) =
     Inr (SimEntity_name_constructor nm, [], nm) \<and>
   get_entity_object (SimEntity_name_constructor nm) =
     Inr (SimEntity_name_constructor nm,
          [''SimEntity Gazebo object does not hold a uint64_t entity.''], 0)"
  by (simp add: fully_initialised_def get_name_object_def get_entity_object_def
      SimEntity_entity_constructor_def SimEntity_entity_member_init_def
      SimEntity_name_constructor_def SimEntity_name_member_init_def SimEntity_storage_def)

section \<open>Properties of MotionParams\<close>

text \<open>
  C5, as stated, fails: nothing rejects an invalid configuration. Starting from the
  default-initialised struct and assigning \<open>v_max = -1\<close> (or \<open>a_nom = 1\<close>, which exceeds
  \<open>a_max\<close>) gives a MotionParams object that violates the specified invariant.
\<close>

theorem MotionParams_invalid_counterexample:
  "\<not> MotionParams_invariant_spec (MotionParams_default\<lparr>v_max := - 1\<rparr>) \<and>
   \<not> MotionParams_invariant_spec (MotionParams_default\<lparr>a_nom := 1\<rparr>)"
  by (simp add: MotionParams_invariant_spec_def MotionParams_default_def)

text \<open>
  C5, amended to what the code does: MotionParams is a plain aggregate without any
  validation. The default-initialised MotionParams (0.2, 0.1, 0.08, 0.01) satisfies the
  invariant, and any four values given for the fields are stored unchanged, whether or
  not they satisfy it.
\<close>

theorem MotionParams_default_valid_and_fields_unchecked:
  "MotionParams_invariant_spec MotionParams_default \<and>
   v_max \<lparr>v_max = a, a_max = b, a_nom = c, dx_min = d\<rparr> = a \<and>
   a_max \<lparr>v_max = a, a_max = b, a_nom = c, dx_min = d\<rparr> = b \<and>
   a_nom \<lparr>v_max = a, a_max = b, a_nom = c, dx_min = d\<rparr> = c \<and>
   dx_min \<lparr>v_max = a, a_max = b, a_nom = c, dx_min = d\<rparr> = d"
  by (simp add: MotionParams_invariant_spec_def MotionParams_default_def)

section \<open>Properties of make\_response\<close>

text \<open>
  C8. For every status code, simulated time, request identifier and source identifier,
  the message returned by \<^verbatim>\<open>make_response\<close> has the given status, the given request
  identifier as \<open>request_guid\<close>, the given source identifier as \<open>source_guid\<close>, and
  \<^verbatim>\<open>simulation_now(sim_time)\<close> as its time stamp. Every other field keeps the value the
  default constructor gave it.
\<close>

theorem make_response_fields:
  "status (make_response simulation_now response0 st sim_time rq guid) = st \<and>
   request_guid (make_response simulation_now response0 st sim_time rq guid) = rq \<and>
   source_guid (make_response simulation_now response0 st sim_time rq guid) = guid \<and>
   time (make_response simulation_now response0 st sim_time rq guid) = simulation_now sim_time \<and>
   ResultMsg.more (make_response simulation_now response0 st sim_time rq guid) =
     ResultMsg.more response0"
  by (simp add: make_response_def)

section \<open>Properties of the conversions\<close>

text \<open>
  The component-wise conversions are exact inverses of each other: they copy and never
  compute. For a pose, the translation comes back unchanged and the rotation comes back
  as whatever the conversion to a quaternion and back to a matrix makes of it.
\<close>

lemma convert_vec_roundtrip:
  "convert_vec (convert_vec_out v) = v \<and> convert_vec_out (convert_vec u) = u"
  by (simp add: convert_vec_def convert_vec_out_def)

lemma convert_quat_roundtrip:
  "convert_quat (convert_quat_out q) = q \<and> convert_quat_out (convert_quat r) = r"
  by (simp add: convert_quat_def convert_quat_out_def)

lemma convert_pose_roundtrip:
  "convert_pose matrix_of_quaternion (convert_to_pose quaternion_of_matrix tf) =
     \<lparr>translation = translation tf,
      linear_part = matrix_of_quaternion (quaternion_of_matrix (linear_part tf))\<rparr>"
  by (simp add: convert_pose_def convert_to_pose_def convert_vec_roundtrip
      convert_quat_roundtrip)

subsection \<open>Eigen's conversions on the rotation of a unit quaternion\<close>

text \<open>
  A quaternion and its negative give the same rotation matrix. From the rotation matrix
  of a unit quaternion \<open>q\<close>, Eigen's conversion recovers \<open>q\<close> or \<open>-q\<close>: the component
  it takes the square root for is never zero. So the matrix comes back exactly.
\<close>

lemma toRotationMatrix_scale:
  "c = 1 \<or> c = - 1 \<Longrightarrow> toRotationMatrix (quat_scale c q) = toRotationMatrix q"
  by (auto simp add: toRotationMatrix_def quat_scale_def Let_def)

lemma sqrt_four_square: "sqrt (4 * c\<^sup>2) = 2 * \<bar>c\<bar>"
  by (simp add: real_sqrt_mult)

lemma half_sqrt_four_square: "(1 / 2) * sqrt (4 * c\<^sup>2) = sgn c * (c::real)"
  by (simp add: sqrt_four_square sgn_if)

lemma recover_component:
  "c \<noteq> 0 \<Longrightarrow> (4 * (d * c)) * ((1 / 2) / sqrt (4 * c\<^sup>2)) = sgn c * (d::real)"
  by (simp add: sqrt_four_square sgn_if field_simps)

lemma Quaterniond_from_matrix_trace:
  "0 < m00 m + m11 m + m22 m \<Longrightarrow>
   Quaterniond_from_matrix m =
     \<lparr>quat_w = (1 / 2) * sqrt (m00 m + m11 m + m22 m + 1),
      quat_x = (m21 m - m12 m) * ((1 / 2) / sqrt (m00 m + m11 m + m22 m + 1)),
      quat_y = (m02 m - m20 m) * ((1 / 2) / sqrt (m00 m + m11 m + m22 m + 1)),
      quat_z = (m10 m - m01 m) * ((1 / 2) / sqrt (m00 m + m11 m + m22 m + 1))\<rparr>"
  by (simp add: Quaterniond_from_matrix_def Let_def)

lemma Quaterniond_from_matrix_x:
  "\<not> 0 < m00 m + m11 m + m22 m \<Longrightarrow> \<not> m00 m < m11 m \<Longrightarrow> \<not> m00 m < m22 m \<Longrightarrow>
   Quaterniond_from_matrix m =
     \<lparr>quat_w = (m21 m - m12 m) * ((1 / 2) / sqrt (m00 m - m11 m - m22 m + 1)),
      quat_x = (1 / 2) * sqrt (m00 m - m11 m - m22 m + 1),
      quat_y = (m10 m + m01 m) * ((1 / 2) / sqrt (m00 m - m11 m - m22 m + 1)),
      quat_z = (m20 m + m02 m) * ((1 / 2) / sqrt (m00 m - m11 m - m22 m + 1))\<rparr>"
  by (simp add: Quaterniond_from_matrix_def Let_def)

lemma Quaterniond_from_matrix_y:
  "\<not> 0 < m00 m + m11 m + m22 m \<Longrightarrow> m00 m < m11 m \<Longrightarrow> \<not> m11 m < m22 m \<Longrightarrow>
   Quaterniond_from_matrix m =
     \<lparr>quat_w = (m02 m - m20 m) * ((1 / 2) / sqrt (m11 m - m22 m - m00 m + 1)),
      quat_x = (m01 m + m10 m) * ((1 / 2) / sqrt (m11 m - m22 m - m00 m + 1)),
      quat_y = (1 / 2) * sqrt (m11 m - m22 m - m00 m + 1),
      quat_z = (m21 m + m12 m) * ((1 / 2) / sqrt (m11 m - m22 m - m00 m + 1))\<rparr>"
  by (simp add: Quaterniond_from_matrix_def Let_def)

lemma Quaterniond_from_matrix_z:
  "\<not> 0 < m00 m + m11 m + m22 m \<Longrightarrow> (if m00 m < m11 m then m11 m else m00 m) < m22 m \<Longrightarrow>
   Quaterniond_from_matrix m =
     \<lparr>quat_w = (m10 m - m01 m) * ((1 / 2) / sqrt (m22 m - m00 m - m11 m + 1)),
      quat_x = (m02 m + m20 m) * ((1 / 2) / sqrt (m22 m - m00 m - m11 m + 1)),
      quat_y = (m12 m + m21 m) * ((1 / 2) / sqrt (m22 m - m00 m - m11 m + 1)),
      quat_z = (1 / 2) * sqrt (m22 m - m00 m - m11 m + 1)\<rparr>"
  by (simp add: Quaterniond_from_matrix_def Let_def split: if_splits)

lemma Quaterniond_from_rotation:
  assumes "unit_quaternion q"
  shows "\<exists>c. (c = 1 \<or> c = - 1) \<and> Quaterniond_from_matrix (toRotationMatrix q) = quat_scale c q"
proof -
  obtain w x y z where q: "q = \<lparr>quat_w = w, quat_x = x, quat_y = y, quat_z = z\<rparr>"
    by (cases q) auto
  have u: "w\<^sup>2 + x\<^sup>2 + y\<^sup>2 + z\<^sup>2 = 1"
    using assms by (simp add: unit_quaternion_def q)
  define m where "m = toRotationMatrix q"
  have d: "m00 m = 1 - 2 * y\<^sup>2 - 2 * z\<^sup>2" "m11 m = 1 - 2 * x\<^sup>2 - 2 * z\<^sup>2"
    "m22 m = 1 - 2 * x\<^sup>2 - 2 * y\<^sup>2"
    by (simp_all add: m_def q toRotationMatrix_def Let_def power2_eq_square)
  have ow: "m21 m - m12 m = 4 * (x * w)" "m02 m - m20 m = 4 * (y * w)"
    "m10 m - m01 m = 4 * (z * w)"
    by (simp_all add: m_def q toRotationMatrix_def Let_def)
  have o: "m21 m - m12 m = 4 * (w * x)" "m02 m - m20 m = 4 * (w * y)"
    "m10 m - m01 m = 4 * (w * z)"
    "m10 m + m01 m = 4 * (y * x)" "m20 m + m02 m = 4 * (z * x)" "m21 m + m12 m = 4 * (z * y)"
    "m01 m + m10 m = 4 * (x * y)" "m02 m + m20 m = 4 * (x * z)" "m12 m + m21 m = 4 * (y * z)"
    by (simp_all add: m_def q toRotationMatrix_def Let_def)
  have tr: "m00 m + m11 m + m22 m + 1 = 4 * w\<^sup>2"
    using u by (simp add: d)
  have rx: "m00 m - m11 m - m22 m + 1 = 4 * x\<^sup>2"
    and ry: "m11 m - m22 m - m00 m + 1 = 4 * y\<^sup>2"
    and rz: "m22 m - m00 m - m11 m + 1 = 4 * z\<^sup>2"
    by (simp_all add: d)
  have sg: "sgn c = 1 \<or> sgn c = - 1" if "c \<noteq> 0" for c :: real
    using that by (simp add: sgn_if)
  show ?thesis
  proof (cases "0 < m00 m + m11 m + m22 m")
    case True
    then have "0 < 4 * w\<^sup>2 - 1"
      using tr by linarith
    then have w: "w \<noteq> 0"
      by auto
    have "Quaterniond_from_matrix m = quat_scale (sgn w) q"
      by (simp only: Quaterniond_from_matrix_trace [OF True] tr ow half_sqrt_four_square
          recover_component [OF w])
        (simp add: quat_scale_def q)
    with sg [OF w] show ?thesis
      unfolding m_def by blast
  next
    case False
    then have w1: "4 * w\<^sup>2 \<le> 1"
      using tr by linarith
    show ?thesis
    proof (cases "(if m00 m < m11 m then m11 m else m00 m) < m22 m")
      case zmax: True
      then have "x\<^sup>2 \<le> z\<^sup>2 \<and> y\<^sup>2 \<le> z\<^sup>2"
        by (simp add: d split: if_splits)
      then have z: "z \<noteq> 0"
        using u w1 by auto
      have "Quaterniond_from_matrix m = quat_scale (sgn z) q"
        by (simp only: Quaterniond_from_matrix_z [OF False zmax] rz o half_sqrt_four_square
            recover_component [OF z])
          (simp add: quat_scale_def q)
      with sg [OF z] show ?thesis
        unfolding m_def by blast
    next
      case nz: False
      show ?thesis
      proof (cases "m00 m < m11 m")
        case ymax: True
        with nz have ny: "\<not> m11 m < m22 m"
          by simp
        from ymax ny have "x\<^sup>2 \<le> y\<^sup>2 \<and> z\<^sup>2 \<le> y\<^sup>2"
          by (simp add: d)
        then have y: "y \<noteq> 0"
          using u w1 by auto
        have "Quaterniond_from_matrix m = quat_scale (sgn y) q"
          by (simp only: Quaterniond_from_matrix_y [OF False ymax ny] ry o
              half_sqrt_four_square recover_component [OF y])
            (simp add: quat_scale_def q)
        with sg [OF y] show ?thesis
          unfolding m_def by blast
      next
        case xmax: False
        with nz have nx: "\<not> m00 m < m22 m"
          by simp
        from xmax nx have "y\<^sup>2 \<le> x\<^sup>2 \<and> z\<^sup>2 \<le> x\<^sup>2"
          by (simp add: d)
        then have x: "x \<noteq> 0"
          using u w1 by auto
        have "Quaterniond_from_matrix m = quat_scale (sgn x) q"
          by (simp only: Quaterniond_from_matrix_x [OF False xmax nx] rx o
              half_sqrt_four_square recover_component [OF x])
            (simp add: quat_scale_def q)
        with sg [OF x] show ?thesis
          unfolding m_def by blast
      qed
    qed
  qed
qed

lemma eigen_rotation_roundtrip:
  assumes "unit_quaternion q"
  shows "toRotationMatrix (Quaterniond_from_matrix (toRotationMatrix q)) = toRotationMatrix q"
proof -
  obtain c where "c = 1 \<or> c = - 1"
    and "Quaterniond_from_matrix (toRotationMatrix q) = quat_scale c q"
    using Quaterniond_from_rotation [OF assms] by blast
  then show ?thesis
    by (simp only: toRotationMatrix_scale)
qed

text \<open>
  With Eigen's two conversions in place of the parameters, a rigid transform made of
  any translation and the rotation of any unit quaternion survives the trip to the
  backend pose and back unchanged.
\<close>

lemma eigen_pose_roundtrip:
  assumes "unit_quaternion q"
  shows "convert_pose toRotationMatrix
           (convert_to_pose Quaterniond_from_matrix
              \<lparr>translation = t, linear_part = toRotationMatrix q\<rparr>) =
         \<lparr>translation = t, linear_part = toRotationMatrix q\<rparr>"
  by (simp add: convert_pose_roundtrip eigen_rotation_roundtrip [OF assms])

subsection \<open>The round trip through the backend pose\<close>

text \<open>
  C9. With doubles idealised as reals, lossless up to rounding is equality. For every
  rigid transform whose rotation survives the library's conversion to a quaternion and
  back (which \<open>eigen_rotation_roundtrip\<close> shows of the rotation of every unit
  quaternion), converting it with \<^verbatim>\<open>convert_to_pose\<close> and back with
  \<^verbatim>\<open>convert_pose\<close> yields the original transform; and the component-wise conversions
  of vectors and quaternions are inverse to each other in both directions.
\<close>

theorem pose_roundtrip_lossless:
  assumes "matrix_of_quaternion (quaternion_of_matrix (linear_part tf)) = linear_part tf"
  shows "convert_pose matrix_of_quaternion (convert_to_pose quaternion_of_matrix tf) = tf \<and>
         convert_vec (convert_vec_out v) = v \<and> convert_vec_out (convert_vec u) = u \<and>
         convert_quat (convert_quat_out q) = q \<and> convert_quat_out (convert_quat r) = r"
  using assms
  by (simp add: convert_pose_roundtrip convert_vec_roundtrip convert_quat_roundtrip)

theorem pose_roundtrip_lossless_witness:
  "toRotationMatrix
     (Quaterniond_from_matrix
        (linear_part
           \<lparr>translation = \<lparr>coeff0 = 1, coeff1 = 2, coeff2 = 3 :: real\<rparr>,
            linear_part =
              toRotationMatrix \<lparr>quat_w = 0, quat_x = 1, quat_y = 0, quat_z = 0 :: real\<rparr>\<rparr>)) =
   linear_part
     \<lparr>translation = \<lparr>coeff0 = 1, coeff1 = 2, coeff2 = 3 :: real\<rparr>,
      linear_part = toRotationMatrix \<lparr>quat_w = 0, quat_x = 1, quat_y = 0, quat_z = 0 :: real\<rparr>\<rparr> \<and>
   convert_pose toRotationMatrix
     (convert_to_pose Quaterniond_from_matrix
        \<lparr>translation = \<lparr>coeff0 = 1, coeff1 = 2, coeff2 = 3 :: real\<rparr>,
         linear_part =
           toRotationMatrix \<lparr>quat_w = 0, quat_x = 1, quat_y = 0, quat_z = 0 :: real\<rparr>\<rparr>) =
   \<lparr>translation = \<lparr>coeff0 = 1, coeff1 = 2, coeff2 = 3 :: real\<rparr>,
    linear_part = toRotationMatrix \<lparr>quat_w = 0, quat_x = 1, quat_y = 0, quat_z = 0 :: real\<rparr>\<rparr> \<and>
   convert_vec (convert_vec_out \<lparr>coeff0 = 1, coeff1 = 2, coeff2 = 3 :: real\<rparr>) =
     \<lparr>coeff0 = 1, coeff1 = 2, coeff2 = 3 :: real\<rparr> \<and>
   convert_vec_out (convert_vec \<lparr>vec_X = 1, vec_Y = 2, vec_Z = 3 :: real\<rparr>) =
     \<lparr>vec_X = 1, vec_Y = 2, vec_Z = 3 :: real\<rparr> \<and>
   convert_quat (convert_quat_out \<lparr>quat_w = 0, quat_x = 1, quat_y = 0, quat_z = 0 :: real\<rparr>) =
     \<lparr>quat_w = 0, quat_x = 1, quat_y = 0, quat_z = 0 :: real\<rparr> \<and>
   convert_quat_out (convert_quat \<lparr>rot_W = 0, rot_X = 1, rot_Y = 0, rot_Z = 0 :: real\<rparr>) =
     \<lparr>rot_W = 0, rot_X = 1, rot_Y = 0, rot_Z = 0 :: real\<rparr>"
proof -
  let ?q = "\<lparr>quat_w = 0, quat_x = 1, quat_y = 0, quat_z = 0 :: real\<rparr>"
  let ?tf = "\<lparr>translation = \<lparr>coeff0 = 1, coeff1 = 2, coeff2 = 3 :: real\<rparr>,
             linear_part = toRotationMatrix ?q\<rparr>"
  have h: "toRotationMatrix (Quaterniond_from_matrix (linear_part ?tf)) = linear_part ?tf"
    by (simp add: toRotationMatrix_def Quaterniond_from_matrix_def)
  show ?thesis
    using h
      pose_roundtrip_lossless [where matrix_of_quaternion = toRotationMatrix
          and quaternion_of_matrix = Quaterniond_from_matrix and tf = ?tf
          and v = "\<lparr>coeff0 = 1, coeff1 = 2, coeff2 = 3 :: real\<rparr>"
          and u = "\<lparr>vec_X = 1, vec_Y = 2, vec_Z = 3 :: real\<rparr>"
          and q = ?q and r = "\<lparr>rot_W = 0, rot_X = 1, rot_Y = 0, rot_Z = 0 :: real\<rparr>", OF h]
    by blast
qed

section \<open>Properties of the rate controller\<close>

subsection \<open>The building blocks\<close>


lemma move_toward_zero: "0 \<le> d \<Longrightarrow> \<bar>move_toward v 0 d\<bar> \<le> max 0 (\<bar>v\<bar> - d)"
  unfolding move_toward_def by auto


lemma clip_magnitude_shrinks: "0 \<le> l \<Longrightarrow> \<bar>clip_magnitude x l\<bar> \<le> \<bar>x\<bar>"
  unfolding clip_magnitude_def by auto

lemma clip_magnitude_zero: "0 \<le> l \<Longrightarrow> clip_magnitude 0 l = 0"
  unfolding clip_magnitude_def by auto


lemma braking_distance_at_goal: "braking_distance (sgn 0) v 0 a = 0"
  by (simp add: braking_distance_def sgn_if)

subsection \<open>The four paths through the controller\<close>

lemma controller_snap:
  "\<bar>s\<bar> < dx_min p \<Longrightarrow> \<bar>s\<bar> = 0 \<and> \<bar>v - sgn s * dest\<bar> \<le> tol \<Longrightarrow>
   compute_desired_rate_of_change tol s v now dest p dt =
     clip_magnitude (sgn s * dest) (v_max p)"
  unfolding compute_desired_rate_of_change_def Let_def by (simp only: if_True simp_thms)

lemma controller_deadband:
  "\<bar>s\<bar> < dx_min p \<Longrightarrow> \<not> (\<bar>s\<bar> = 0 \<and> \<bar>v - sgn s * dest\<bar> \<le> tol) \<Longrightarrow>
   compute_desired_rate_of_change tol s v now dest p dt =
     clip_magnitude (move_toward v (sgn s * dest) (a_max p * dt)) (v_max p)"
  unfolding compute_desired_rate_of_change_def Let_def by (simp only: if_True if_False)

lemma controller_brake:
  "\<not> \<bar>s\<bar> < dx_min p \<Longrightarrow> \<bar>s\<bar> \<le> braking_distance (sgn s) v dest (a_max p) \<Longrightarrow>
   compute_desired_rate_of_change tol s v now dest p dt =
     clip_magnitude (move_toward v (sgn s * dest) (a_max p * dt)) (v_max p)"
  unfolding compute_desired_rate_of_change_def Let_def by (simp only: if_True if_False)



subsection \<open>The concrete scenarios of the specification\<close>

text \<open>
  Section 8, item 7 of the specification lists four calls with the default limits and
  \<open>dt = 0.1\<close>. The model agrees with each of them: 0.008 when accelerating from rest
  far from the goal (the specification asks for a value in \<open>(0, 0.008]\<close>), 0.14 in the
  deadband from 0.15, exactly 0 at rest on the goal, and 0.092 when the goal lies behind
  (a move from 0.1 toward \<open>-speed_target_now\<close> by \<open>a_nom \<sqdot> dt\<close>, within the
  \<open>a_max \<sqdot> dt\<close> the specification allows). None of them depends on the tolerance.
\<close>

lemma scenario_accelerate_from_rest:
  "compute_desired_rate_of_change tol 5 0 (2 / 10) 0 MotionParams_default (1 / 10) = 8 / 1000"
  by (simp add: compute_desired_rate_of_change_def move_toward_def clip_magnitude_def
      braking_distance_def MotionParams_default_def)

lemma scenario_deadband:
  "compute_desired_rate_of_change tol (5 / 1000) (15 / 100) (2 / 10) 0 MotionParams_default (1 / 10)
     = 14 / 100"
  by (simp add: compute_desired_rate_of_change_def move_toward_def clip_magnitude_def
      braking_distance_def MotionParams_default_def)

lemma scenario_at_rest_on_goal:
  "compute_desired_rate_of_change tol 0 0 (2 / 10) 0 MotionParams_default (1 / 10) = 0"
  by (simp add: compute_desired_rate_of_change_def move_toward_def clip_magnitude_def
      braking_distance_def MotionParams_default_def)

lemma scenario_goal_behind:
  "compute_desired_rate_of_change tol (- 3) (1 / 10) (2 / 10) 0 MotionParams_default (1 / 10)
     = 92 / 1000"
  by (simp add: compute_desired_rate_of_change_def move_toward_def clip_magnitude_def
      braking_distance_def MotionParams_default_def)

subsection \<open>The two bounds cannot hold together\<close>

text \<open>
  The contract promises \<open>|v_new| \<le> v_max\<close> and \<open>|v_new - v_actual| \<le> a_max \<sqdot> dt\<close> of
  every call. Once the current velocity is further than \<open>a_max \<sqdot> dt\<close> beyond \<open>v_max\<close>,
  no number is within \<open>v_max\<close> of zero and within \<open>a_max \<sqdot> dt\<close> of the current velocity:
  no body of the controller, whatever it computes, meets both promises there. With the
  default limits and \<open>dt = 0.1\<close>, a current velocity of 1 is such a case.
\<close>

lemma bounds_incompatible_beyond_reach:
  assumes "v_max p + a_max p * dt < \<bar>v\<bar>"
  shows "\<not> (\<bar>r\<bar> \<le> v_max p \<and> \<bar>r - v\<bar> \<le> a_max p * dt)"
  using assms by linarith

lemma bounds_incompatible_at_high_speed:
  "\<not> (\<bar>r\<bar> \<le> v_max MotionParams_default \<and> \<bar>r - 1\<bar> \<le> a_max MotionParams_default * (1 / 10))"
  by (simp add: MotionParams_default_def) linarith

subsection \<open>Velocity bound\<close>



subsection \<open>Acceleration bound\<close>




subsection \<open>Stopping on the goal\<close>

lemma stop_step:
  assumes "MotionParams_invariant_spec p" and "0 < dt"
  shows "\<bar>compute_desired_rate_of_change tol 0 v now 0 p dt\<bar> \<le> max 0 (\<bar>v\<bar> - a_max p * dt)"
proof -
  have a: "0 \<le> a_max p * dt" and l: "0 \<le> v_max p"
    using assms by (simp_all add: MotionParams_invariant_spec_def)
  note m = move_toward_zero [OF a, of v]
  have c: "\<bar>clip_magnitude (move_toward v 0 (a_max p * dt)) (v_max p)\<bar>
            \<le> max 0 (\<bar>v\<bar> - a_max p * dt)"
    using clip_magnitude_shrinks [OF l, of "move_toward v 0 (a_max p * dt)"] m by linarith
  show ?thesis
  proof (cases "\<bar>0::real\<bar> < dx_min p")
    case True
    show ?thesis
    proof (cases "\<bar>0::real\<bar> = 0 \<and> \<bar>v - sgn 0 * 0\<bar> \<le> tol")
      case snap: True
      show ?thesis
        using clip_magnitude_zero [OF l] by (simp add: controller_snap [OF True snap])
    next
      case False
      show ?thesis
        using c by (simp only: controller_deadband [OF True False] mult_zero_right)
    qed
  next
    case False
    have b: "\<bar>0::real\<bar> \<le> braking_distance (sgn 0) v 0 (a_max p)"
      using braking_distance_at_goal [of v "a_max p"] by simp
    show ?thesis
      using c by (simp only: controller_brake [OF False b] mult_zero_right)
  qed
qed

lemma stop_iterate:
  assumes "MotionParams_invariant_spec p" and "0 < dt"
  shows "\<bar>((\<lambda>v. compute_desired_rate_of_change tol 0 v now 0 p dt) ^^ m) v0\<bar>
           \<le> max 0 (\<bar>v0\<bar> - real m * (a_max p * dt))"
proof (induction m)
  case 0
  show ?case by simp
next
  case (Suc m)
  let ?g = "\<lambda>v. compute_desired_rate_of_change tol 0 v now 0 p dt"
  have a: "0 \<le> a_max p * dt"
    using assms by (simp add: MotionParams_invariant_spec_def)
  have "\<bar>(?g ^^ Suc m) v0\<bar> \<le> max 0 (\<bar>(?g ^^ m) v0\<bar> - a_max p * dt)"
    using stop_step [OF assms, of tol "(?g ^^ m) v0" now] by simp
  also have "\<dots> \<le> max 0 (max 0 (\<bar>v0\<bar> - real m * (a_max p * dt)) - a_max p * dt)"
    using Suc.IH by auto
  also have "\<dots> \<le> max 0 (\<bar>v0\<bar> - real (Suc m) * (a_max p * dt))"
    using a by (simp add: algebra_simps)
  finally show ?case .
qed

text \<open>
  C3. For valid limits and \<open>dt > 0\<close>: with \<open>s_target = 0\<close>, \<open>speed_target_dest = 0\<close> and
  \<open>v_actual = 0\<close> the controller returns exactly 0. More generally, calling it tick after
  tick with \<open>s_target = 0\<close> and \<open>speed_target_dest = 0\<close>, each time on the velocity it
  returned before, reaches exactly 0 after finitely many ticks and stays there, from any
  starting velocity \<open>v0\<close> of either sign, for any cruise speed and any tolerance.
\<close>

theorem stop_on_goal_converges_to_zero:
  assumes "MotionParams_invariant_spec p" and "0 < dt"
  shows "compute_desired_rate_of_change tol 0 0 now 0 p dt = 0 \<and>
         (\<exists>n. \<forall>m\<ge>n. ((\<lambda>v. compute_desired_rate_of_change tol 0 v now 0 p dt) ^^ m) v0 = 0)"
proof
  show "compute_desired_rate_of_change tol 0 0 now 0 p dt = 0"
    using stop_step [OF assms, of tol 0 now] assms
    by (simp add: MotionParams_invariant_spec_def)
next
  let ?g = "\<lambda>v. compute_desired_rate_of_change tol 0 v now 0 p dt"
  have a: "0 < a_max p * dt"
    using assms by (simp add: MotionParams_invariant_spec_def)
  obtain n :: nat where n: "\<bar>v0\<bar> / (a_max p * dt) \<le> real n"
    using real_arch_simple by blast
  have "(?g ^^ m) v0 = 0" if "n \<le> m" for m
  proof -
    have "\<bar>v0\<bar> \<le> real n * (a_max p * dt)"
      using n a by (simp add: pos_divide_le_eq)
    also have "\<dots> \<le> real m * (a_max p * dt)"
      using that a by (simp add: mult_right_mono)
    finally have "max 0 (\<bar>v0\<bar> - real m * (a_max p * dt)) = 0"
      by simp
    then show ?thesis
      using stop_iterate [OF assms, where m = m and tol = tol and now = now and ?v0.0 = v0]
      by simp
  qed
  then show "\<exists>n. \<forall>m\<ge>n. (?g ^^ m) v0 = 0"
    by blast
qed

theorem stop_on_goal_converges_to_zero_witness:
  "MotionParams_invariant_spec MotionParams_default \<and> (0::real) < 1 / 10 \<and>
   compute_desired_rate_of_change (1 / 1000) 0 0 (2 / 10) 0 MotionParams_default (1 / 10) = 0 \<and>
   (\<exists>n. \<forall>m\<ge>n.
      ((\<lambda>v. compute_desired_rate_of_change (1 / 1000) 0 v (2 / 10) 0 MotionParams_default (1 / 10))
         ^^ m) (- (15 / 100)) = 0)"
proof -
  have inv: "MotionParams_invariant_spec MotionParams_default"
    by (simp add: MotionParams_invariant_spec_def MotionParams_default_def)
  have dt: "(0::real) < 1 / 10"
    by simp
  show ?thesis
    using inv dt
      stop_on_goal_converges_to_zero [OF inv dt, of "1 / 1000" "2 / 10" "- (15 / 100)"]
    by blast
qed

end
